theory Spec2Isabelle
  imports Main "HOL-Library.Multiset"
begin

section \<open>Python values used by the programs\<close>

text \<open>
  A Python \<open>str\<close> is modelled as a \<open>string\<close> whose characters are read as code points
  below 256. \<open>isspace\<close> lists the code points in that range for which Python's
  \<open>str.isspace\<close> holds; \<open>strip\<close> is \<open>str.strip()\<close> without arguments.
\<close>

definition isspace :: "char \<Rightarrow> bool" where
  "isspace c = (of_char c \<in> set [9, 10, 11, 12, 13, 28, 29, 30, 31, 32, 133, 160 :: nat])"

definition strip :: "string \<Rightarrow> string" where
  "strip s = rev (dropWhile isspace (rev (dropWhile isspace s)))"

text \<open>Truth value of an \<open>Optional[str]\<close> in a condition: \<open>None\<close> and \<open>""\<close> are false.\<close>

definition truthy :: "string option \<Rightarrow> bool" where
  "truthy s = (case s of None \<Rightarrow> False | Some t \<Rightarrow> t \<noteq> [])"

text \<open>An \<open>Optional[str]\<close> interpolated into an f-string: \<open>None\<close> prints as \<open>None\<close>.\<close>

definition fmt :: "string option \<Rightarrow> string" where
  "fmt s = (case s of None \<Rightarrow> ''None'' | Some t \<Rightarrow> t)"

text \<open>
  Decimal rendering of integers, as \<open>str(n)\<close> and f-string interpolation give it. The
  interpreter's refusal to render an integer of more digits than its limit (4300 unless
  changed) is not modelled.
\<close>

definition digit_char :: "nat \<Rightarrow> char" where
  "digit_char d = char_of (48 + d)"

function str_nat :: "nat \<Rightarrow> string" where
  "str_nat n = (if n < 10 then [digit_char n] else str_nat (n div 10) @ [digit_char (n mod 10)])"
  by pat_completeness auto
termination
  by (relation "measure id") auto

declare str_nat.simps [simp del]

definition str_int :: "int \<Rightarrow> string" where
  "str_int i = (if i < 0 then ''-'' @ str_nat (nat (- i)) else str_nat (nat i))"

text \<open>
  Exceptions. \<open>CalledProcessError\<close> carries \<open>returncode\<close>, \<open>cmd\<close>, \<open>stdout\<close> and
  \<open>stderr\<close>; every other exception is \<open>Exception cls msg\<close>, its class name and the text
  \<open>str(e)\<close> returns.
\<close>

datatype exn = CalledProcessError int "string list" string string | Exception string string

definition NameError :: "string \<Rightarrow> exn" where
  "NameError n = Exception ''NameError'' (''name '' @ [CHR 0x27] @ n @ [CHR 0x27] @ '' is not defined'')"

definition ValueError :: "string \<Rightarrow> exn" where
  "ValueError msg = Exception ''ValueError'' msg"

definition TypeError :: "string \<Rightarrow> exn" where
  "TypeError msg = Exception ''TypeError'' msg"

definition IndexError :: "string \<Rightarrow> exn" where
  "IndexError msg = Exception ''IndexError'' msg"

section \<open>The external process\<close>

text \<open>
  What one call of \<open>subprocess.run(cmd, capture_output=True, text=True, check=True)\<close>
  meets: the process ran and ended with a return code, its captured standard output and
  standard error, or the call itself raised an exception (the launcher is missing, the
  process could not be started, the output could not be decoded), given by its class
  name and message. Output that cannot be decoded makes the call raise whatever the
  return code of the process, also when it is zero.
\<close>

datatype proc_result = Exited int string string | Faulted string string

text \<open>With \<open>check=True\<close> a non-zero return code is raised as \<open>CalledProcessError\<close>.\<close>

fun subprocess_run :: "string list \<Rightarrow> proc_result \<Rightarrow> exn + string \<times> string" where
  "subprocess_run cmd (Exited returncode out err) =
     (if returncode \<noteq> 0 then Inl (CalledProcessError returncode cmd out err)
      else Inr (out, err))"
| "subprocess_run cmd (Faulted cls msg) = Inl (Exception cls msg)"

text \<open>
  The surroundings of one Executor call: what \<open>os.getcwd()\<close> returns or raises, and what
  the call of \<open>subprocess.run\<close> meets.
\<close>

record world =
  getcwd :: "exn + string"
  process :: proc_result

text \<open>An Outcome is the tuple \<open>(identifier, stdout, stderr)\<close> of the source.\<close>

type_synonym 'i outcome = "'i \<times> string option \<times> string option"

section \<open>Task Executor\<close>

subsection \<open>\<open>docker_runner_gui.py\<close>: \<open>DockerRunnerGUI.run_docker_container\<close>\<close>

definition cmd_gui :: "string \<Rightarrow> string \<Rightarrow> string list" where
  "cmd_gui cwd command =
     [''docker'', ''run'',
      ''-u'', ''coder'',
      ''-v'', cwd @ '':/home/coder/project'',
      ''-w'', ''/home/coder/project'',
      ''--rm'',
      ''py-cl-7'',
      ''sh'', ''-c'',
      ''echo '' @ [CHR 0x27] @ command @ [CHR 0x27]
        @ '' | npx @anthropic-ai/claude-code -p --dangerously-skip-permissions'']"

text \<open>
  The list \<open>cmd\<close> is built before the \<open>try\<close>, so an exception of \<open>os.getcwd()\<close> leaves the
  function. Inside the \<open>try\<close>, \<open>CalledProcessError\<close> has the first handler and every other
  \<open>Exception\<close> the second.
\<close>

definition run_docker_container_gui :: "world \<Rightarrow> string \<Rightarrow> exn + string outcome" where
  "run_docker_container_gui w command =
     (case getcwd w of
        Inl e \<Rightarrow> Inl e
      | Inr cwd \<Rightarrow>
          (case subprocess_run (cmd_gui cwd command) (process w) of
             Inr (out, err) \<Rightarrow> Inr (command, Some (strip out), None)
           | Inl (CalledProcessError returncode cmd out err) \<Rightarrow>
               Inr (command, None, Some (''Error: '' @ strip err))
           | Inl (Exception cls msg) \<Rightarrow>
               Inr (command, None, Some (''Error: '' @ msg))))"

subsection \<open>\<open>docker_runner.py\<close>: \<open>run_docker_container\<close>\<close>

definition cmd_cli :: "string \<Rightarrow> string \<Rightarrow> string list" where
  "cmd_cli cwd command =
     [''docker'', ''run'',
      ''-u'', ''coder'',
      ''-v'', cwd @ '':/home/coder/project'',
      ''-w'', ''/home/coder/project'',
      ''--rm'',
      ''py-cl-7'',
      ''sh'', ''-c'', ''echo '' @ [CHR 0x27] @ command @ [CHR 0x27]]"

text \<open>
  All three \<open>return\<close> statements of this function build their tuple from the name
  \<open>index\<close>. The function's only parameter is \<open>command\<close>, its locals are \<open>cmd\<close>, \<open>result\<close>
  and \<open>e\<close>; the module binds \<open>subprocess\<close>, \<open>threading\<close>, \<open>ThreadPoolExecutor\<close>,
  \<open>as_completed\<close>, \<open>sys\<close>, \<open>List\<close>, \<open>Tuple\<close>, \<open>Optional\<close>, \<open>os\<close> and its four functions; no
  builtin is called \<open>index\<close>. Evaluating the name therefore raises \<open>NameError\<close>. The
  annotation of the function gives the identifier the type \<open>int\<close>.
\<close>

definition index_cli :: "exn + int" where
  "index_cli = Inl (NameError ''index'')"

text \<open>
  The body of the \<open>try\<close>: the tuple's components are evaluated from left to right, the
  name \<open>index\<close> first.
\<close>

definition try_body_cli :: "string list \<Rightarrow> proc_result \<Rightarrow> exn + int outcome" where
  "try_body_cli cmd p =
     (case subprocess_run cmd p of
        Inl e \<Rightarrow> Inl e
      | Inr (out, err) \<Rightarrow>
          (case index_cli of Inl e \<Rightarrow> Inl e | Inr i \<Rightarrow> Inr (i, Some (strip out), None)))"

text \<open>
  An exception raised inside the \<open>try\<close> (also the \<open>NameError\<close> of its \<open>return\<close>) goes to
  the matching handler; an exception raised inside a handler leaves the function.
\<close>

definition run_docker_container_cli :: "world \<Rightarrow> string \<Rightarrow> exn + int outcome" where
  "run_docker_container_cli w command =
     (case getcwd w of
        Inl e \<Rightarrow> Inl e
      | Inr cwd \<Rightarrow>
          (case try_body_cli (cmd_cli cwd command) (process w) of
             Inr r \<Rightarrow> Inr r
           | Inl (CalledProcessError returncode cmd out err) \<Rightarrow>
               (case index_cli of
                  Inl e \<Rightarrow> Inl e
                | Inr i \<Rightarrow> Inr (i, None, Some (''Error: '' @ strip err)))
           | Inl (Exception cls msg) \<Rightarrow>
               (case index_cli of
                  Inl e \<Rightarrow> Inl e
                | Inr i \<Rightarrow> Inr (i, None, Some (''Error: '' @ msg)))))"

section \<open>Parallel Dispatcher\<close>

text \<open>
  \<open>env i\<close> is the world that the call submitted for the \<open>i\<close>-th command meets. \<open>order\<close>
  is the order in which \<open>as_completed\<close> yields the futures, as positions in \<open>commands\<close>: it
  yields every submitted future once, so \<open>order\<close> is a permutation of the positions.
  \<open>future.result()\<close> returns what the call returned or raises what it raised; the loop
  appends the results one by one and is left by the first exception.
\<close>

fun collect_results :: "'a list \<Rightarrow> (exn + 'a) list \<Rightarrow> exn + 'a list" where
  "collect_results results [] = Inr results"
| "collect_results results (future # futures) =
     (case future of
        Inl e \<Rightarrow> Inl e
      | Inr result \<Rightarrow> collect_results (results @ [result]) futures)"

text \<open>\<open>ThreadPoolExecutor(max_workers=n)\<close> raises \<open>ValueError\<close> unless \<open>n\<close> is positive.\<close>

definition ThreadPoolExecutor :: "int \<Rightarrow> exn + int" where
  "ThreadPoolExecutor max_workers =
     (if max_workers \<le> 0 then Inl (ValueError ''max_workers must be greater than 0'')
      else Inr max_workers)"

text \<open>\<open>docker_runner_gui.py\<close>: the collected list is returned as it is.\<close>

definition run_containers_parallel_gui ::
  "(nat \<Rightarrow> world) \<Rightarrow> nat list \<Rightarrow> string list \<Rightarrow> int \<Rightarrow> exn + string outcome list" where
  "run_containers_parallel_gui env order commands max_workers =
     (case ThreadPoolExecutor max_workers of
        Inl e \<Rightarrow> Inl e
      | Inr pool \<Rightarrow>
          collect_results []
            (map (\<lambda>i. run_docker_container_gui (env i) (commands ! i)) order))"

text \<open>
  \<open>docker_runner.py\<close>: the collected list is sorted by its first component;
  \<open>list.sort\<close> is stable, as \<open>sort_key\<close> is.
\<close>

definition run_containers_parallel_cli ::
  "(nat \<Rightarrow> world) \<Rightarrow> nat list \<Rightarrow> int \<Rightarrow> string list \<Rightarrow> exn + int outcome list" where
  "run_containers_parallel_cli env order num_containers commands =
     (case ThreadPoolExecutor num_containers of
        Inl e \<Rightarrow> Inl e
      | Inr pool \<Rightarrow>
          (case collect_results []
                  (map (\<lambda>i. run_docker_container_cli (env i) (commands ! i)) order) of
             Inl e \<Rightarrow> Inl e
           | Inr results \<Rightarrow> Inr (sort_key fst results)))"

section \<open>Report renderers\<close>

record tally =
  printed :: "string list"
  successful_runs :: nat
  failed_runs :: nat

text \<open>
  \<open>docker_runner.py\<close>, \<open>aggregate_and_display_results\<close>: \<open>printed\<close> holds the argument of
  each \<open>print\<close> call in turn, the empty string for \<open>print()\<close>.
\<close>

fun display_loop_cli :: "tally \<Rightarrow> int outcome list \<Rightarrow> tally" where
  "display_loop_cli t [] = t"
| "display_loop_cli t ((index, stdout, stderr) # results) =
     (if truthy stdout then
        display_loop_cli
          (t\<lparr>printed := printed t @
                [''Container '' @ str_int index @ '': SUCCESS'',
                 ''  Output: '' @ fmt stdout,
                 []],
             successful_runs := successful_runs t + 1\<rparr>) results
      else
        display_loop_cli
          (t\<lparr>printed := printed t @
                [''Container '' @ str_int index @ '': FAILED'',
                 ''  Error: '' @ fmt stderr,
                 []],
             failed_runs := failed_runs t + 1\<rparr>) results)"

definition summary_line :: "tally \<Rightarrow> string" where
  "summary_line t =
     ''SUMMARY: '' @ str_nat (successful_runs t) @ '' successful, ''
       @ str_nat (failed_runs t) @ '' failed''"

definition aggregate_and_display_results :: "int outcome list \<Rightarrow> tally" where
  "aggregate_and_display_results results =
     (let t = display_loop_cli
                \<lparr>printed = [[CHR 0x0A] @ replicate 50 (CHR ''=''),
                            ''DOCKER CONTAINER RESULTS'',
                            replicate 50 (CHR ''='') @ [CHR 0x0A]],
                 successful_runs = 0, failed_runs = 0\<rparr> results
      in t\<lparr>printed := printed t @
             [replicate 50 (CHR ''=''), summary_line t, replicate 50 (CHR ''='')]\<rparr>)"

text \<open>
  \<open>docker_runner_gui.py\<close>, \<open>display_results\<close>: \<open>printed\<close> holds the text of each
  \<open>results_text.insert\<close> in turn; \<open>i\<close> is the counter of \<open>enumerate(results, 1)\<close>.
\<close>

fun display_loop_gui :: "tally \<Rightarrow> nat \<Rightarrow> string outcome list \<Rightarrow> tally" where
  "display_loop_gui t i [] = t"
| "display_loop_gui t i ((command, stdout, stderr) # results) =
     (if truthy stdout then
        display_loop_gui
          (t\<lparr>printed := printed t @
                [''Container '' @ str_nat i @ '' - Command: '' @ command @ [CHR 0x0A],
                 ''  Status: SUCCESS'' @ [CHR 0x0A],
                 ''  Output: '' @ fmt stdout @ [CHR 0x0A],
                 [CHR 0x0A]],
             successful_runs := successful_runs t + 1\<rparr>) (i + 1) results
      else
        display_loop_gui
          (t\<lparr>printed := printed t @
                [''Container '' @ str_nat i @ '' - Command: '' @ command @ [CHR 0x0A],
                 ''  Status: FAILED'' @ [CHR 0x0A],
                 ''  Error: '' @ fmt stderr @ [CHR 0x0A],
                 [CHR 0x0A]],
             failed_runs := failed_runs t + 1\<rparr>) (i + 1) results)"

definition display_results :: "string outcome list \<Rightarrow> tally" where
  "display_results results =
     (let t = display_loop_gui
                \<lparr>printed = [replicate 60 (CHR ''='') @ [CHR 0x0A],
                            ''DOCKER CONTAINER RESULTS'' @ [CHR 0x0A],
                            replicate 60 (CHR ''='') @ [CHR 0x0A, CHR 0x0A]],
                 successful_runs = 0, failed_runs = 0\<rparr> 1 results
      in t\<lparr>printed := printed t @
             [replicate 60 (CHR ''='') @ [CHR 0x0A],
              summary_line t @ [CHR 0x0A],
              replicate 60 (CHR ''='') @ [CHR 0x0A]]\<rparr>)"

section \<open>Worker-count configuration\<close>

text \<open>
  \<open>int(s)\<close> on a string, in the order in which the interpreter decides: leading
  whitespace is skipped, one sign is allowed, then the run of decimal digits and
  underscores is read. The run must be digits with single underscores between digits
  only; a run of more digits than the interpreter's limit for such conversions (4300
  unless changed) is refused; after the run only whitespace may follow. Every refusal is
  a \<open>ValueError\<close>; \<open>py_int\<close> returns its message on the left. The message for a malformed
  text quotes the argument with Python's \<open>repr\<close>, which is a parameter here.
  The whitespace of \<open>int\<close> is narrower than that of \<open>str.strip\<close>: the separators
  U+001C to U+001F are not skipped.
\<close>

definition int_space :: "char \<Rightarrow> bool" where
  "int_space c = (of_char c \<in> set [9, 10, 11, 12, 13, 32, 133, 160 :: nat])"

definition int_max_str_digits :: nat where
  "int_max_str_digits = 4300"

definition isdigit :: "char \<Rightarrow> bool" where
  "isdigit c = (48 \<le> (of_char c :: nat) \<and> (of_char c :: nat) \<le> 57)"

definition digit_value :: "char \<Rightarrow> nat" where
  "digit_value c = of_char c - 48"

fun digits_ok :: "string \<Rightarrow> bool" where
  "digits_ok [] = False"
| "digits_ok [c] = isdigit c"
| "digits_ok (c # d # s) =
     (if isdigit c then (if d = CHR ''_'' then digits_ok s else digits_ok (d # s)) else False)"

definition py_int :: "(string \<Rightarrow> string) \<Rightarrow> string \<Rightarrow> string + int" where
  "py_int repr s =
     (let t = dropWhile int_space s;
          signed = (t \<noteq> [] \<and> (hd t = CHR ''-'' \<or> hd t = CHR ''+''));
          body = (if signed then tl t else t);
          run = takeWhile (\<lambda>c. isdigit c \<or> c = CHR ''_'') body;
          rest = dropWhile (\<lambda>c. isdigit c \<or> c = CHR ''_'') body;
          digits = filter isdigit run;
          magnitude = int (foldl (\<lambda>a c. 10 * a + digit_value c) 0 digits);
          invalid = ''invalid literal for int() with base 10: '' @ repr s
      in if digits_ok run then
           (if int_max_str_digits < length digits then
              Inl (''Exceeds the limit ('' @ str_nat int_max_str_digits
                     @ '' digits) for integer string conversion: value has ''
                     @ str_nat (length digits)
                     @ '' digits; use sys.set_int_max_str_digits() to increase the limit'')
            else if dropWhile int_space rest = [] then
              Inr (if signed \<and> hd t = CHR ''-'' then - magnitude else magnitude)
            else Inl invalid)
         else Inl invalid)"

subsection \<open>\<open>docker_runner.py\<close>: \<open>main\<close>\<close>

text \<open>
  How a run of the program ends: \<open>main\<close> returns (exit status 0), \<open>sys.exit(n)\<close> is
  called, or an exception reaches the top level (the interpreter prints the traceback
  and exits with status 1).
\<close>

datatype ending = Returned | SysExit int | Uncaught exn

definition exit_status :: "ending \<Rightarrow> int" where
  "exit_status e = (case e of Returned \<Rightarrow> 0 | SysExit n \<Rightarrow> n | Uncaught x \<Rightarrow> 1)"

text \<open>
  A run of the command-line program: the arguments of its \<open>print\<close> calls, the commands
  handed to \<open>executor.submit\<close>, and how it ended.
\<close>

record run_cli =
  printed_lines :: "string list"
  submitted :: "string list"
  ending :: ending

text \<open>
  The first part of \<open>main\<close>: the worker count, or on the left the two lines printed
  before \<open>sys.exit(1)\<close>.
\<close>

definition num_containers_of :: "(string \<Rightarrow> string) \<Rightarrow> string list \<Rightarrow> string list + int" where
  "num_containers_of repr argv =
     (if length argv > 1 then
        (case (case py_int repr (argv ! 1) of
                 Inl msg \<Rightarrow> Inl msg
               | Inr num_containers \<Rightarrow>
                   if num_containers < 1 then Inl ''Number must be positive''
                   else Inr num_containers) of
           Inl msg \<Rightarrow>
             Inl [''Invalid argument: '' @ msg,
                  ''Usage: '' @ argv ! 0 @ '' [number_of_containers]'']
         | Inr num_containers \<Rightarrow> Inr num_containers)
      else Inr 5)"

definition main_cli :: "(string \<Rightarrow> string) \<Rightarrow> string list \<Rightarrow> (nat \<Rightarrow> world) \<Rightarrow> nat list \<Rightarrow> run_cli" where
  "main_cli repr argv env order =
     (case num_containers_of repr argv of
        Inl lines \<Rightarrow> \<lparr>printed_lines = lines, submitted = [], ending = SysExit 1\<rparr>
      | Inr num_containers \<Rightarrow>
          (let banner = ''Running '' @ str_int num_containers
                          @ '' Docker containers in parallel...'';
               commands = [''test 1'', ''test 2'', ''test 3'']
           in case run_containers_parallel_cli env order num_containers commands of
                Inl e \<Rightarrow> \<lparr>printed_lines = [banner], submitted = commands, ending = Uncaught e\<rparr>
              | Inr results \<Rightarrow>
                  \<lparr>printed_lines = banner # printed (aggregate_and_display_results results),
                   submitted = commands, ending = Returned\<rparr>))"

subsection \<open>\<open>docker_runner_gui.py\<close>: \<open>validate_max_workers\<close> and \<open>run_containers\<close>\<close>

text \<open>
  What the form does, in turn: message boxes, changes of the widgets, and the start of
  the thread that runs the Dispatcher on the commands with the worker count.
\<close>

datatype gui_event =
    ShowError string string
  | ShowWarning string string
  | DisableRunButton
  | ClearResults
  | InsertResults string
  | StartThread "string list" int

definition validate_max_workers :: "(string \<Rightarrow> string) \<Rightarrow> string \<Rightarrow> gui_event list \<times> int option" where
  "validate_max_workers repr max_workers_var =
     (case (case py_int repr max_workers_var of
              Inl msg \<Rightarrow> Inl msg
            | Inr max_workers \<Rightarrow>
                if max_workers < 1 then Inl ''Max workers must be at least 1''
                else Inr max_workers) of
        Inr max_workers \<Rightarrow> ([], Some max_workers)
      | Inl msg \<Rightarrow>
          ([ShowError ''Invalid Input'' (''Max workers must be a positive integer: '' @ msg)],
           None))"

text \<open>\<open>command_entries\<close> holds the text of each command widget.\<close>

definition run_containers :: "(string \<Rightarrow> string) \<Rightarrow> string \<Rightarrow> string list \<Rightarrow> gui_event list" where
  "run_containers repr max_workers_var command_entries =
     (case validate_max_workers repr max_workers_var of
        (shown, None) \<Rightarrow> shown
      | (shown, Some max_workers) \<Rightarrow>
          (let commands = filter (\<lambda>entry. entry \<noteq> []) (map strip command_entries)
           in if commands = [] then
                shown @ [ShowWarning ''No Commands'' ''Please enter at least one command.'']
              else
                shown @
                [DisableRunButton,
                 ClearResults,
                 InsertResults (''Running '' @ str_nat (length commands)
                   @ '' Docker containers with max '' @ str_int max_workers
                   @ '' workers...'' @ [CHR 0x0A, CHR 0x0A]),
                 StartThread commands max_workers]))"

section \<open>\<open>testit.py\<close>: the Fibonacci functions\<close>

text \<open>
  One pass of the loop body of \<open>fibonacci\<close>: \<open>fib_sequence[-1]\<close> and \<open>fib_sequence[-2]\<close>
  raise \<open>IndexError\<close> on a list of fewer than two elements.
\<close>

definition append_next :: "int list \<Rightarrow> exn + int list" where
  "append_next fib_sequence =
     (if length fib_sequence < 2 then Inl (IndexError ''list index out of range'')
      else Inr (fib_sequence @
                  [last fib_sequence + fib_sequence ! (length fib_sequence - 2)]))"

text \<open>
  The loop \<open>for i in range(2, n)\<close> by the number of passes left; the body does not use
  \<open>i\<close>.
\<close>

fun fib_loop :: "nat \<Rightarrow> int list \<Rightarrow> exn + int list" where
  "fib_loop 0 fib_sequence = Inr fib_sequence"
| "fib_loop (Suc k) fib_sequence =
     (case append_next fib_sequence of
        Inl e \<Rightarrow> Inl e
      | Inr longer \<Rightarrow> fib_loop k longer)"

definition fibonacci :: "int \<Rightarrow> exn + int list" where
  "fibonacci n =
     (if n \<le> 0 then Inr []
      else if n = 1 then Inr [0]
      else if n = 2 then Inr [0, 1]
      else fib_loop (nat (n - 2)) [0, 1])"

text \<open>
  \<open>fibonacci_recursive\<close> returns \<open>None\<close> or an integer; adding \<open>None\<close> raises
  \<open>TypeError\<close>. Every call of the function takes a frame, and the interpreter raises
  \<open>RecursionError\<close> for a call that would pass its limit on nested frames
  (\<open>sys.getrecursionlimit()\<close>, 1000 unless changed). \<open>room\<close> is the number of further
  nested calls the interpreter admits where the function is called: the limit less the
  frames already active, 999 at the top level of a script under the default limit.
\<close>

definition RecursionError :: "string \<Rightarrow> exn" where
  "RecursionError msg = Exception ''RecursionError'' msg"

definition py_add :: "int option \<Rightarrow> int option \<Rightarrow> exn + int option" where
  "py_add a b =
     (case (a, b) of
        (Some x, Some y) \<Rightarrow> Inr (Some (x + y))
      | (Some x, None) \<Rightarrow>
          Inl (TypeError (''unsupported operand type(s) for +: '' @ [CHR 0x27] @ ''int''
                 @ [CHR 0x27] @ '' and '' @ [CHR 0x27] @ ''NoneType'' @ [CHR 0x27]))
      | (None, Some y) \<Rightarrow>
          Inl (TypeError (''unsupported operand type(s) for +: '' @ [CHR 0x27] @ ''NoneType''
                 @ [CHR 0x27] @ '' and '' @ [CHR 0x27] @ ''int'' @ [CHR 0x27]))
      | (None, None) \<Rightarrow>
          Inl (TypeError (''unsupported operand type(s) for +: '' @ [CHR 0x27] @ ''NoneType''
                 @ [CHR 0x27] @ '' and '' @ [CHR 0x27] @ ''NoneType'' @ [CHR 0x27])))"

function fibonacci_recursive :: "nat \<Rightarrow> int \<Rightarrow> exn + int option" where
  "fibonacci_recursive room n =
     (if room = 0 then Inl (RecursionError ''maximum recursion depth exceeded'')
      else if n \<le> 0 then Inr None
      else if n = 1 then Inr (Some 0)
      else if n = 2 then Inr (Some 1)
      else (case fibonacci_recursive (room - 1) (n - 1) of
              Inl e \<Rightarrow> Inl e
            | Inr a \<Rightarrow>
                (case fibonacci_recursive (room - 1) (n - 2) of
                   Inl e \<Rightarrow> Inl e
                 | Inr b \<Rightarrow> py_add a b)))"
  by pat_completeness auto
termination
  by (relation "measure (\<lambda>(room, n). room)") auto

declare fibonacci_recursive.simps [simp del]

section \<open>Auxiliary notions of the statements\<close>

text \<open>
  The execution succeeded: \<open>subprocess.run\<close> returned, with return code zero. A call
  that raised is not a success, also when the process itself exited with status 0 and
  only its output could not be decoded.
\<close>

definition succeeded :: "proc_result \<Rightarrow> bool" where
  "succeeded p = (case p of Exited returncode out err \<Rightarrow> returncode = 0 | Faulted cls msg \<Rightarrow> False)"

text \<open>Surroundings in which every submitted call meets the same world.\<close>

definition everywhere :: "world \<Rightarrow> nat \<Rightarrow> world" where
  "everywhere w i = w"

text \<open>
  The report: an Outcome counts as a success when its output is true in a condition;
  \<open>block_cli\<close> and \<open>block_gui\<close> are the lines written for one Outcome, in the form with
  the Outcome's position in the list.
\<close>

definition block_cli :: "int outcome \<Rightarrow> string list" where
  "block_cli r =
     (case r of (index, stdout, stderr) \<Rightarrow>
        if truthy stdout
        then [''Container '' @ str_int index @ '': SUCCESS'', ''  Output: '' @ fmt stdout, []]
        else [''Container '' @ str_int index @ '': FAILED'', ''  Error: '' @ fmt stderr, []])"

definition block_gui :: "nat \<times> string outcome \<Rightarrow> string list" where
  "block_gui r =
     (case r of (i, command, stdout, stderr) \<Rightarrow>
        if truthy stdout
        then [''Container '' @ str_nat i @ '' - Command: '' @ command @ [CHR 0x0A],
              ''  Status: SUCCESS'' @ [CHR 0x0A],
              ''  Output: '' @ fmt stdout @ [CHR 0x0A],
              [CHR 0x0A]]
        else [''Container '' @ str_nat i @ '' - Command: '' @ command @ [CHR 0x0A],
              ''  Status: FAILED'' @ [CHR 0x0A],
              ''  Error: '' @ fmt stderr @ [CHR 0x0A],
              [CHR 0x0A]])"

definition is_success :: "'i outcome \<Rightarrow> bool" where
  "is_success r = truthy (fst (snd r))"

text \<open>
  A worker-count text is invalid when \<open>int\<close> rejects it or the number is below 1.
\<close>

definition invalid_count :: "(string \<Rightarrow> string) \<Rightarrow> string \<Rightarrow> bool" where
  "invalid_count repr s = (case py_int repr s of Inl msg \<Rightarrow> True | Inr n \<Rightarrow> n < 1)"

text \<open>
  The Fibonacci numbers by their recurrence, from \<open>F 0 = 0\<close> and \<open>F 1 = 1\<close>: what both
  functions of \<open>testit.py\<close> are compared with.
\<close>

fun fib_number :: "nat \<Rightarrow> int" where
  "fib_number 0 = 0"
| "fib_number (Suc 0) = 1"
| "fib_number (Suc (Suc k)) = fib_number (Suc k) + fib_number k"

section \<open>Properties of the Executor\<close>

subsection \<open>The command-line Executor\<close>

lemma run_docker_container_cli_raises:
  "getcwd w = Inr cwd \<Longrightarrow> run_docker_container_cli w command = Inl (NameError ''index'')"
  by (cases "process w")
     (simp_all add: run_docker_container_cli_def try_body_cli_def index_cli_def NameError_def)

lemma run_docker_container_cli_never_returns:
  "\<exists>e. run_docker_container_cli w command = Inl e"
proof (cases "getcwd w")
  case (Inl e)
  then show ?thesis by (simp add: run_docker_container_cli_def)
next
  case (Inr cwd)
  then show ?thesis by (simp add: run_docker_container_cli_raises)
qed

subsection \<open>The Executor of the form\<close>

lemma run_docker_container_gui_exit_zero:
  "getcwd w = Inr cwd \<Longrightarrow> process w = Exited 0 out err \<Longrightarrow>
   run_docker_container_gui w command = Inr (command, Some (strip out), None)"
  by (simp add: run_docker_container_gui_def)

lemma run_docker_container_gui_exit_nonzero:
  "getcwd w = Inr cwd \<Longrightarrow> process w = Exited returncode out err \<Longrightarrow> returncode \<noteq> 0 \<Longrightarrow>
   run_docker_container_gui w command = Inr (command, None, Some (''Error: '' @ strip err))"
  by (simp add: run_docker_container_gui_def)

lemma run_docker_container_gui_faulted:
  "getcwd w = Inr cwd \<Longrightarrow> process w = Faulted cls msg \<Longrightarrow>
   run_docker_container_gui w command = Inr (command, None, Some (''Error: '' @ msg))"
  by (simp add: run_docker_container_gui_def)

lemma run_docker_container_gui_returns:
  assumes "getcwd w = Inr cwd"
  shows "\<exists>out err. run_docker_container_gui w command = Inr (command, out, err)"
  using assms
  by (cases "process w") (auto simp: run_docker_container_gui_def)

text \<open>An exception of \<open>os.getcwd()\<close> is raised before the \<open>try\<close> and leaves the function.\<close>

lemma run_docker_container_gui_getcwd_raises:
  "getcwd w = Inl e \<Longrightarrow> run_docker_container_gui w command = Inl e"
  by (simp add: run_docker_container_gui_def)

lemma run_docker_container_gui_hello:
  "run_docker_container_gui \<lparr>getcwd = Inr ''/srv'', process = Exited 0 ''hello'' []\<rparr> ''say hello''
     = Inr (''say hello'', Some ''hello'', None)"
  by (simp add: run_docker_container_gui_def strip_def isspace_def)

lemma run_docker_container_gui_boom:
  "run_docker_container_gui \<lparr>getcwd = Inr ''/srv'', process = Exited 2 [] ''boom''\<rparr> ''fail''
     = Inr (''fail'', None, Some ''Error: boom'')"
  by (simp add: run_docker_container_gui_def strip_def isspace_def)

subsection \<open>Claims about the Executor\<close>

text \<open>
  C2: whatever the external process does (zero exit, non-zero exit, failure to start),
  the Executor returns an Outcome and no exception leaves it. The Executor of
  \<open>docker_runner.py\<close> does the opposite: for a zero exit, for a non-zero exit and for a
  launcher that cannot be started alike, the \<open>NameError\<close> of the unbound name \<open>index\<close>
  leaves the function and no Outcome is returned.
\<close>

theorem C2_cli_executor_raises:
  "run_docker_container_cli \<lparr>getcwd = Inr ''/work'', process = Exited 0 ''hello'' []\<rparr> ''test 1''
     = Inl (NameError ''index'')
   \<and> run_docker_container_cli \<lparr>getcwd = Inr ''/work'', process = Exited 2 [] ''boom''\<rparr> ''test 1''
     = Inl (NameError ''index'')
   \<and> run_docker_container_cli
       \<lparr>getcwd = Inr ''/work'', process = Faulted ''FileNotFoundError'' ''docker''\<rparr> ''test 1''
     = Inl (NameError ''index'')"
  by (simp add: run_docker_container_cli_raises)

text \<open>
  C5: a process that exits with status 0 and standard output \<open>hello\<close> yields the Outcome
  with output \<open>hello\<close> and no error. The Executor of \<open>docker_runner.py\<close> returns no
  Outcome on this input, whatever the identifier: it raises \<open>NameError\<close>.
\<close>

theorem C5_cli_exit_zero_no_outcome:
  "run_docker_container_cli \<lparr>getcwd = Inr ''/srv'', process = Exited 0 ''hello'' []\<rparr> ''say hello''
     \<noteq> Inr (i, Some ''hello'', None)
   \<and> run_docker_container_cli \<lparr>getcwd = Inr ''/srv'', process = Exited 0 ''hello'' []\<rparr> ''say hello''
     = Inl (NameError ''index'')"
  by (simp add: run_docker_container_cli_raises)

text \<open>
  C6: a process that exits with status 2 and standard error \<open>boom\<close> yields the Outcome
  with no output and an error text that contains \<open>boom\<close>. The Executor of
  \<open>docker_runner.py\<close> returns no Outcome on this input, whatever the identifier and the
  error text: it raises \<open>NameError\<close>.
\<close>

theorem C6_cli_exit_two_no_outcome:
  "run_docker_container_cli \<lparr>getcwd = Inr ''/srv'', process = Exited 2 [] ''boom''\<rparr> ''fail''
     \<noteq> Inr (i, None, Some msg)
   \<and> run_docker_container_cli \<lparr>getcwd = Inr ''/srv'', process = Exited 2 [] ''boom''\<rparr> ''fail''
     = Inl (NameError ''index'')"
  by (simp add: run_docker_container_cli_raises)

text \<open>
  C4, as stated: every Outcome has exactly one of output and error set and non-empty,
  also for an empty standard output on a zero exit. It fails on exactly that input: the
  output is the empty string and the error is \<open>None\<close>, so neither field is non-empty.
\<close>

theorem C4_counterexample:
  "run_docker_container_gui \<lparr>getcwd = Inr ''/srv'', process = Exited 0 [] []\<rparr> ''true''
     = Inr (''true'', Some [], None)
   \<and> \<not> (truthy (Some []) \<noteq> truthy None)"
  by (simp add: run_docker_container_gui_def strip_def truthy_def)

text \<open>
  C4, amended: every Outcome that the Executor returns has exactly one of output and
  error set (not \<open>None\<close>), never both and never neither; the output is set if and only if
  \<open>subprocess.run\<close> returned with return code zero, and is then the trimmed standard
  output, which may be empty; the error is set if and only if \<open>subprocess.run\<close> raised
  (a non-zero return code, a process that could not be started, output that could not
  be decoded), and is then non-empty.
\<close>

theorem C4_exactly_one_set:
  assumes "run_docker_container_gui w command = Inr (ident, out, err)"
  shows "(out = None) \<noteq> (err = None)
       \<and> (out \<noteq> None) = succeeded (process w)
       \<and> (err \<noteq> None) = (\<not> succeeded (process w))
       \<and> truthy err = (\<not> succeeded (process w))
       \<and> (out \<noteq> None) = (\<exists>so se. process w = Exited 0 so se \<and> out = Some (strip so))"
proof -
  from assms obtain cwd where cwd: "getcwd w = Inr cwd"
    by (cases "getcwd w") (simp_all add: run_docker_container_gui_def)
  show ?thesis
  proof (cases "process w")
    case (Exited returncode so se)
    show ?thesis
    proof (cases "returncode = 0")
      case True
      with assms cwd Exited show ?thesis
        by (auto simp: run_docker_container_gui_exit_zero truthy_def succeeded_def)
    next
      case False
      with assms cwd Exited show ?thesis
        by (auto simp: run_docker_container_gui_exit_nonzero truthy_def succeeded_def)
    qed
  next
    case (Faulted cls msg)
    with assms cwd show ?thesis
      by (auto simp: run_docker_container_gui_faulted truthy_def succeeded_def)
  qed
qed

text \<open>
  The amended C4 at the input of the counterexample, where the output is set and empty
  and the error is not set, and at a process that exits with status 0 but whose output
  cannot be decoded, where \<open>subprocess.run\<close> raises and the error is set.
\<close>

theorem C4_exactly_one_set_witness:
  "run_docker_container_gui \<lparr>getcwd = Inr ''/srv'', process = Exited 0 [] []\<rparr> ''true''
     = Inr (''true'', Some [], None)
   \<and> (Some ([]::string) = None) \<noteq> ((None::string option) = None)
   \<and> (Some ([]::string) \<noteq> None) = succeeded (Exited 0 [] [])
   \<and> truthy None = (\<not> succeeded (Exited 0 [] []))
   \<and> run_docker_container_gui
        \<lparr>getcwd = Inr ''/srv'', process = Faulted ''UnicodeDecodeError'' ''invalid start byte''\<rparr>
        ''true''
     = Inr (''true'', None, Some ''Error: invalid start byte'')
   \<and> ((None::string option) \<noteq> None)
       = succeeded (Faulted ''UnicodeDecodeError'' ''invalid start byte'')
   \<and> truthy (Some ''Error: invalid start byte'')
       = (\<not> succeeded (Faulted ''UnicodeDecodeError'' ''invalid start byte''))"
  using C4_exactly_one_set
    [of "\<lparr>getcwd = Inr ''/srv'', process = Exited 0 [] []\<rparr>" "''true''" "''true''" "Some []" None]
    C4_exactly_one_set
    [of "\<lparr>getcwd = Inr ''/srv'',
           process = Faulted ''UnicodeDecodeError'' ''invalid start byte''\<rparr>"
        "''true''" "''true''" None "Some ''Error: invalid start byte''"]
  by (simp add: run_docker_container_gui_def strip_def)

section \<open>Properties of the Dispatcher\<close>

lemma collect_results_all_returned:
  "collect_results results (map Inr rs) = Inr (results @ rs)"
  by (induction rs arbitrary: results) simp_all

lemma ThreadPoolExecutor_positive:
  "1 \<le> n \<Longrightarrow> ThreadPoolExecutor n = Inr n"
  by (simp add: ThreadPoolExecutor_def)

subsection \<open>The command-line Dispatcher\<close>

text \<open>
  The first future that \<open>as_completed\<close> yields has raised, \<open>future.result()\<close> raises it
  again, and the exception leaves \<open>run_containers_parallel\<close> before the sort.
\<close>

lemma run_containers_parallel_cli_raises:
  assumes "1 \<le> num_containers" and "order = i # rest" and "getcwd (env i) = Inr cwd"
  shows "run_containers_parallel_cli env order num_containers commands = Inl (NameError ''index'')"
  using assms
  by (simp add: run_containers_parallel_cli_def ThreadPoolExecutor_positive
        run_docker_container_cli_raises)

lemma run_containers_parallel_cli_never_returns:
  assumes "order \<noteq> []"
  shows "\<exists>e. run_containers_parallel_cli env order num_containers commands = Inl e"
proof (cases "ThreadPoolExecutor num_containers")
  case (Inl e)
  then show ?thesis by (simp add: run_containers_parallel_cli_def)
next
  case (Inr pool)
  from assms obtain i rest where order: "order = i # rest"
    by (cases order) auto
  obtain e where "run_docker_container_cli (env i) (commands ! i) = Inl e"
    using run_docker_container_cli_never_returns by blast
  with Inr order show ?thesis
    by (simp add: run_containers_parallel_cli_def)
qed

lemma run_containers_parallel_cli_empty:
  "1 \<le> num_containers \<Longrightarrow> run_containers_parallel_cli env [] num_containers [] = Inr []"
  by (simp add: run_containers_parallel_cli_def ThreadPoolExecutor_positive)

subsection \<open>The Dispatcher of the form\<close>

text \<open>
  With a working directory for every call, the Dispatcher of the form returns the
  Outcomes of the calls in the order of completion, each one what the Executor returned
  for that task in that task's own world.
\<close>

lemma run_containers_parallel_gui_completion_order:
  assumes perm: "mset order = mset [0..<length commands]"
    and cwd: "\<forall>i<length commands. \<exists>d. getcwd (env i) = Inr d"
    and workers: "1 \<le> max_workers"
  shows "\<exists>rs. run_containers_parallel_gui env order commands max_workers = Inr rs
           \<and> map Inr rs = map (\<lambda>i. run_docker_container_gui (env i) (commands ! i)) order
           \<and> map fst rs = map ((!) commands) order"
proof -
  let ?call = "\<lambda>i. run_docker_container_gui (env i) (commands ! i)"
  have in_range: "i < length commands" if "i \<in> set order" for i
  proof -
    from that have "i \<in># mset order" by simp
    with perm have "i \<in> set [0..<length commands]" by (metis set_mset_mset)
    then show ?thesis by simp
  qed
  have returned: "\<exists>out err. ?call i = Inr (commands ! i, out, err)" if "i \<in> set order" for i
    using that in_range cwd run_docker_container_gui_returns by blast
  define rs where "rs = map (\<lambda>i. projr (?call i)) order"
  have futures: "map ?call order = map Inr rs"
    unfolding rs_def using returned by (fastforce simp: comp_def)
  have ids: "map fst rs = map ((!) commands) order"
    unfolding rs_def using returned by (fastforce simp: comp_def)
  have "run_containers_parallel_gui env order commands max_workers = Inr rs"
    using workers futures
    by (simp add: run_containers_parallel_gui_def ThreadPoolExecutor_positive
          collect_results_all_returned)
  with futures ids show ?thesis by auto
qed

text \<open>One Outcome per task, none twice and none missing.\<close>

lemma run_containers_parallel_gui_one_per_task:
  assumes perm: "mset order = mset [0..<length commands]"
    and cwd: "\<forall>i<length commands. \<exists>d. getcwd (env i) = Inr d"
    and workers: "1 \<le> max_workers"
  shows "\<exists>rs. run_containers_parallel_gui env order commands max_workers = Inr rs
           \<and> length rs = length commands
           \<and> mset (map fst rs) = mset commands
           \<and> (distinct commands \<longrightarrow> distinct (map fst rs))"
proof -
  from run_containers_parallel_gui_completion_order [OF assms]
  obtain rs where run: "run_containers_parallel_gui env order commands max_workers = Inr rs"
    and ids: "map fst rs = map ((!) commands) order"
    by blast
  have "mset (map ((!) commands) order) = image_mset ((!) commands) (mset [0..<length commands])"
    using perm by (metis mset_map)
  also have "\<dots> = mset (map ((!) commands) [0..<length commands])"
    by simp
  also have "\<dots> = mset commands"
    by (simp add: map_nth)
  finally have same: "mset (map fst rs) = mset commands"
    using ids by simp
  then have "length (map fst rs) = length commands"
    by (metis size_mset)
  moreover have "distinct (map fst rs)" if "distinct commands"
    using same that by (metis mset_eq_imp_distinct_iff)
  ultimately show ?thesis
    using run same by auto
qed

subsection \<open>Claims about the Dispatcher\<close>

text \<open>
  C1: for a task list with unique identifiers and a worker bound of at least 1 the
  Dispatcher returns one Outcome per task. The Dispatcher of \<open>docker_runner.py\<close>, on the
  three commands and the default bound of its own \<open>main\<close>, with every process exiting
  with status 0, returns no list at all, whichever task completes first: the
  \<open>NameError\<close> of the Executor leaves it.
\<close>

theorem C1_cli_dispatch_raises:
  "run_containers_parallel_cli
     (everywhere \<lparr>getcwd = Inr ''/work'', process = Exited 0 ''done'' []\<rparr>)
     [0, 1, 2] 5 [''test 1'', ''test 2'', ''test 3'']
   = Inl (NameError ''index'')
   \<and> run_containers_parallel_cli
     (everywhere \<lparr>getcwd = Inr ''/work'', process = Exited 0 ''done'' []\<rparr>)
     [2, 0, 1] 5 [''test 1'', ''test 2'', ''test 3'']
   = Inl (NameError ''index'')"
  by (simp add: run_containers_parallel_cli_def ThreadPoolExecutor_def everywhere_def
        run_docker_container_cli_raises)

text \<open>
  C3: the Dispatcher sorts the Outcomes by task identifier, so that the order of the
  result does not depend on the order of completion. The Dispatcher of
  \<open>docker_runner_gui.py\<close> does not sort: for the commands \<open>a\<close> and \<open>b\<close> it returns \<open>a\<close>
  before \<open>b\<close> when \<open>a\<close> completes first and \<open>b\<close> before \<open>a\<close> when \<open>b\<close> completes first.
\<close>

theorem C3_gui_order_follows_completion:
  "run_containers_parallel_gui
     (everywhere \<lparr>getcwd = Inr ''/work'', process = Exited 0 ''done'' []\<rparr>)
     [0, 1] [''a'', ''b''] 2
   = Inr [(''a'', Some ''done'', None), (''b'', Some ''done'', None)]
   \<and> run_containers_parallel_gui
     (everywhere \<lparr>getcwd = Inr ''/work'', process = Exited 0 ''done'' []\<rparr>)
     [1, 0] [''a'', ''b''] 2
   = Inr [(''b'', Some ''done'', None), (''a'', Some ''done'', None)]"
  by (simp add: run_containers_parallel_gui_def ThreadPoolExecutor_def everywhere_def
        run_docker_container_gui_def strip_def isspace_def)

section \<open>Properties of the configuration check\<close>

lemma py_int_abc:
  "py_int repr ''abc'' = Inl (''invalid literal for int() with base 10: '' @ repr ''abc'')"
  by (simp add: py_int_def int_space_def isdigit_def Let_def)

lemma py_int_zero: "py_int repr ''0'' = Inr 0"
  by (simp add: py_int_def int_space_def isdigit_def digit_value_def int_max_str_digits_def Let_def)

lemma py_int_three: "py_int repr ''3'' = Inr 3"
  by (simp add: py_int_def int_space_def isdigit_def digit_value_def int_max_str_digits_def Let_def)

lemma py_int_minus_two: "py_int repr ''-2'' = Inr (- 2)"
  by (simp add: py_int_def int_space_def isdigit_def digit_value_def int_max_str_digits_def Let_def)

text \<open>
  \<open>int\<close> does not skip the separators U+001C to U+001F, which \<open>str.strip\<close> removes, and
  it refuses a text of more digits than its limit.
\<close>

lemma py_int_separator_rejected:
  "py_int repr [CHR 0x1C, CHR ''5''] =
     Inl (''invalid literal for int() with base 10: '' @ repr [CHR 0x1C, CHR ''5''])"
  "py_int repr [CHR ''5'', CHR 0x1F] =
     Inl (''invalid literal for int() with base 10: '' @ repr [CHR ''5'', CHR 0x1F])"
  by (simp_all add: py_int_def int_space_def isdigit_def digit_value_def
        int_max_str_digits_def Let_def)

lemma digits_ok_replicate:
  "isdigit c \<Longrightarrow> digits_ok (replicate (Suc k) c)"
proof (induction k)
  case 0
  then show ?case by simp
next
  case (Suc k)
  from Suc.prems have "c \<noteq> CHR ''_''"
    by (auto simp: isdigit_def)
  with Suc show ?case by simp
qed

lemma py_int_too_long:
  assumes "int_max_str_digits < k"
  shows "\<exists>msg. py_int repr (replicate k (CHR ''1'')) = Inl msg"
proof -
  have digit: "isdigit (CHR ''1'')" and no_space: "\<not> int_space (CHR ''1'')"
    by (simp_all add: isdigit_def int_space_def)
  from assms obtain j where k: "k = Suc j"
    by (cases k) auto
  let ?s = "replicate k (CHR ''1'')"
  have skip: "dropWhile int_space ?s = ?s"
    using no_space by (simp add: k)
  have unsigned: "hd ?s = CHR ''1''"
    by (simp add: k)
  have run: "takeWhile (\<lambda>c. isdigit c \<or> c = CHR ''_'') ?s = ?s"
    using digit by (simp add: takeWhile_replicate)
  have ok: "digits_ok ?s"
    unfolding k using digit by (rule digits_ok_replicate)
  have count: "length (filter isdigit ?s) = k"
    using digit by simp
  show ?thesis
    unfolding py_int_def Let_def skip
    using assms by (simp only: unsigned run ok count) simp
qed

lemma invalid_count_examples:
  "invalid_count repr ''abc''" "invalid_count repr ''0''" "invalid_count repr ''-2''"
  "\<not> invalid_count repr ''3''"
  by (simp_all add: invalid_count_def py_int_abc py_int_zero py_int_three py_int_minus_two)

lemma num_containers_of_invalid:
  assumes "invalid_count repr a"
  shows "\<exists>msg. num_containers_of repr (prog # a # args) =
           Inl [''Invalid argument: '' @ msg, ''Usage: '' @ prog @ '' [number_of_containers]'']"
  using assms
  by (cases "py_int repr a") (auto simp: num_containers_of_def invalid_count_def)

lemma num_containers_of_valid:
  assumes "\<not> invalid_count repr a"
  shows "\<exists>n. 1 \<le> n \<and> py_int repr a = Inr n \<and> num_containers_of repr (prog # a # args) = Inr n"
  using assms
  by (cases "py_int repr a") (auto simp: num_containers_of_def invalid_count_def)

lemma num_containers_of_default: "num_containers_of repr [prog] = Inr 5"
  by (simp add: num_containers_of_def)

lemma main_cli_invalid:
  assumes "invalid_count repr a"
  shows "submitted (main_cli repr (prog # a # args) env order) = []
       \<and> ending (main_cli repr (prog # a # args) env order) = SysExit 1
       \<and> exit_status (ending (main_cli repr (prog # a # args) env order)) = 1
       \<and> (\<exists>msg. printed_lines (main_cli repr (prog # a # args) env order) =
             [''Invalid argument: '' @ msg, ''Usage: '' @ prog @ '' [number_of_containers]''])"
proof -
  from num_containers_of_invalid [OF assms]
  obtain msg where "num_containers_of repr (prog # a # args) =
      Inl [''Invalid argument: '' @ msg, ''Usage: '' @ prog @ '' [number_of_containers]'']"
    by blast
  then show ?thesis
    by (simp add: main_cli_def exit_status_def)
qed

lemma run_containers_invalid:
  assumes "invalid_count repr max_workers_var"
  shows "\<exists>msg. run_containers repr max_workers_var command_entries =
           [ShowError ''Invalid Input'' (''Max workers must be a positive integer: '' @ msg)]"
  using assms
  by (cases "py_int repr max_workers_var")
     (auto simp: run_containers_def validate_max_workers_def invalid_count_def)

lemma main_cli_valid_raises:
  assumes "\<not> invalid_count repr a" and "getcwd (env i) = Inr cwd"
  shows "ending (main_cli repr (prog # a # args) env (i # rest)) = Uncaught (NameError ''index'')
       \<and> exit_status (ending (main_cli repr (prog # a # args) env (i # rest))) = 1
       \<and> length (printed_lines (main_cli repr (prog # a # args) env (i # rest))) = 1"
proof -
  from num_containers_of_valid [OF assms(1)]
  obtain n where n: "1 \<le> n" "num_containers_of repr (prog # a # args) = Inr n"
    by blast
  have "run_containers_parallel_cli env (i # rest) n [''test 1'', ''test 2'', ''test 3'']
          = Inl (NameError ''index'')"
    using n(1) assms(2) by (intro run_containers_parallel_cli_raises) simp_all
  with n(2) show ?thesis
    by (simp add: main_cli_def exit_status_def Let_def)
qed

text \<open>
  C7: an invalid worker count is reported before any task runs, and a valid one leads
  to exit status 0 after the report. The first half holds in both programs
  (\<open>main_cli_invalid\<close>, \<open>run_containers_invalid\<close>). The second half fails in
  \<open>docker_runner.py\<close>: with the valid count \<open>3\<close>, and with no argument at all, the program
  prints its first line only, the \<open>NameError\<close> of the Executor reaches the top level, and
  the exit status is 1.
\<close>

theorem C7_cli_valid_count_crashes:
  "ending (main_cli id [''docker_runner.py'', ''3'']
             (everywhere \<lparr>getcwd = Inr ''/work'', process = Exited 0 ''done'' []\<rparr>) [0, 1, 2])
     = Uncaught (NameError ''index'')
   \<and> exit_status (ending (main_cli id [''docker_runner.py'', ''3'']
             (everywhere \<lparr>getcwd = Inr ''/work'', process = Exited 0 ''done'' []\<rparr>) [0, 1, 2]))
     = 1
   \<and> printed_lines (main_cli id [''docker_runner.py'', ''3'']
             (everywhere \<lparr>getcwd = Inr ''/work'', process = Exited 0 ''done'' []\<rparr>) [0, 1, 2])
     = [''Running 3 Docker containers in parallel...'']
   \<and> exit_status (ending (main_cli id [''docker_runner.py'']
             (everywhere \<lparr>getcwd = Inr ''/work'', process = Exited 0 ''done'' []\<rparr>) [0, 1, 2]))
     = 1"
proof -
  let ?env = "everywhere \<lparr>getcwd = Inr ''/work'', process = Exited 0 ''done'' []\<rparr>"
  have cwd: "getcwd (?env 0) = Inr ''/work''"
    by (simp add: everywhere_def)
  have count: "num_containers_of id [''docker_runner.py'', ''3''] = Inr 3"
    by (simp add: num_containers_of_def py_int_three)
  have raises: "run_containers_parallel_cli ?env [0, 1, 2] n [''test 1'', ''test 2'', ''test 3'']
          = Inl (NameError ''index'')" if "1 \<le> n" for n
    using that cwd by (intro run_containers_parallel_cli_raises) simp_all
  have raises_three: "run_containers_parallel_cli ?env [0, 1, 2] 3 [''test 1'', ''test 2'', ''test 3'']
          = Inl (NameError ''index'')"
    by (rule raises) simp
  have raises_five: "run_containers_parallel_cli ?env [0, 1, 2] 5 [''test 1'', ''test 2'', ''test 3'']
          = Inl (NameError ''index'')"
    by (rule raises) simp
  have three: "str_int 3 = ''3''"
    by code_simp
  have with_three: "main_cli id [''docker_runner.py'', ''3''] ?env [0, 1, 2] =
      \<lparr>printed_lines = [''Running '' @ str_int 3 @ '' Docker containers in parallel...''],
       submitted = [''test 1'', ''test 2'', ''test 3''],
       ending = Uncaught (NameError ''index'')\<rparr>"
    by (simp only: main_cli_def count raises_three Let_def sum.case)
  have with_default: "main_cli id [''docker_runner.py''] ?env [0, 1, 2] =
      \<lparr>printed_lines = [''Running '' @ str_int 5 @ '' Docker containers in parallel...''],
       submitted = [''test 1'', ''test 2'', ''test 3''],
       ending = Uncaught (NameError ''index'')\<rparr>"
    by (simp only: main_cli_def num_containers_of_default raises_five Let_def sum.case)
  show ?thesis
    unfolding with_three with_default
    by (simp add: exit_status_def three)
qed

section \<open>Properties of the report\<close>

lemma display_loop_cli_spec:
  "display_loop_cli t rs =
     t\<lparr>printed := printed t @ concat (map block_cli rs),
       successful_runs := successful_runs t + length (filter is_success rs),
       failed_runs := failed_runs t + length (filter (\<lambda>r. \<not> is_success r) rs)\<rparr>"
proof (induction rs arbitrary: t)
  case Nil
  then show ?case by simp
next
  case (Cons r rs)
  obtain index stdout stderr where r: "r = (index, stdout, stderr)"
    by (cases r)
  show ?case
    by (simp add: r Cons.IH block_cli_def is_success_def)
qed

lemma display_loop_gui_spec:
  "display_loop_gui t i rs =
     t\<lparr>printed := printed t @ concat (map block_gui (zip [i..<i + length rs] rs)),
       successful_runs := successful_runs t + length (filter is_success rs),
       failed_runs := failed_runs t + length (filter (\<lambda>r. \<not> is_success r) rs)\<rparr>"
proof (induction rs arbitrary: t i)
  case Nil
  then show ?case by simp
next
  case (Cons r rs)
  obtain command stdout stderr where r: "r = (command, stdout, stderr)"
    by (cases r)
  have upt: "[i..<i + length (r # rs)] = i # [Suc i..<Suc i + length rs]"
    by (simp add: upt_rec)
  show ?case
    by (simp only: upt) (simp add: r Cons.IH block_gui_def is_success_def)
qed

lemma filter_partition_length:
  "length (filter P xs) + length (filter (\<lambda>x. \<not> P x) xs) = length xs"
  by (induction xs) simp_all

text \<open>
  C9: both renderers count an Outcome as successful exactly when its output is neither
  \<open>None\<close> nor the empty string, write the SUCCESS lines for it then and the FAILED lines
  otherwise, and the two counts add up to the number of Outcomes. An Outcome with the
  empty string as output and no error is therefore shown as FAILED with the error text
  \<open>None\<close>; the Executor of the form returns such an Outcome for a zero exit with blank
  standard output, and it is counted as failed.
\<close>

theorem C9_report_classification:
  "successful_runs (aggregate_and_display_results rs) = length (filter is_success rs)
   \<and> failed_runs (aggregate_and_display_results rs) = length (filter (\<lambda>r. \<not> is_success r) rs)
   \<and> successful_runs (aggregate_and_display_results rs)
       + failed_runs (aggregate_and_display_results rs) = length rs
   \<and> printed (aggregate_and_display_results rs) =
       [[CHR 0x0A] @ replicate 50 (CHR ''=''), ''DOCKER CONTAINER RESULTS'',
        replicate 50 (CHR ''='') @ [CHR 0x0A]]
       @ concat (map block_cli rs)
       @ [replicate 50 (CHR ''=''),
          ''SUMMARY: '' @ str_nat (length (filter is_success rs)) @ '' successful, ''
            @ str_nat (length (filter (\<lambda>r. \<not> is_success r) rs)) @ '' failed'',
          replicate 50 (CHR ''='')]
   \<and> successful_runs (display_results gs) = length (filter is_success gs)
   \<and> failed_runs (display_results gs) = length (filter (\<lambda>r. \<not> is_success r) gs)
   \<and> successful_runs (display_results gs) + failed_runs (display_results gs) = length gs
   \<and> printed (display_results gs) =
       [replicate 60 (CHR ''='') @ [CHR 0x0A], ''DOCKER CONTAINER RESULTS'' @ [CHR 0x0A],
        replicate 60 (CHR ''='') @ [CHR 0x0A, CHR 0x0A]]
       @ concat (map block_gui (zip [1..<1 + length gs] gs))
       @ [replicate 60 (CHR ''='') @ [CHR 0x0A],
          ''SUMMARY: '' @ str_nat (length (filter is_success gs)) @ '' successful, ''
            @ str_nat (length (filter (\<lambda>r. \<not> is_success r) gs)) @ '' failed'' @ [CHR 0x0A],
          replicate 60 (CHR ''='') @ [CHR 0x0A]]
   \<and> is_success (ident, stdout, stderr) = (stdout \<noteq> None \<and> stdout \<noteq> Some [])
   \<and> block_cli (index, Some [], None)
       = [''Container '' @ str_int index @ '': FAILED'', ''  Error: None'', []]
   \<and> block_gui (i, command, Some [], None)
       = [''Container '' @ str_nat i @ '' - Command: '' @ command @ [CHR 0x0A],
          ''  Status: FAILED'' @ [CHR 0x0A], ''  Error: None'' @ [CHR 0x0A], [CHR 0x0A]]
   \<and> run_docker_container_gui \<lparr>getcwd = Inr ''/srv'', process = Exited 0 ''  '' []\<rparr> ''noop''
       = Inr (''noop'', Some [], None)
   \<and> failed_runs (display_results [(''noop'', Some [], None)]) = 1
   \<and> successful_runs (display_results [(''noop'', Some [], None)]) = 0"
proof -
  have cli: "aggregate_and_display_results rs =
    \<lparr>printed = [[CHR 0x0A] @ replicate 50 (CHR ''=''), ''DOCKER CONTAINER RESULTS'',
        replicate 50 (CHR ''='') @ [CHR 0x0A]]
       @ concat (map block_cli rs)
       @ [replicate 50 (CHR ''=''),
          ''SUMMARY: '' @ str_nat (length (filter is_success rs)) @ '' successful, ''
            @ str_nat (length (filter (\<lambda>r. \<not> is_success r) rs)) @ '' failed'',
          replicate 50 (CHR ''='')],
     successful_runs = length (filter is_success rs),
     failed_runs = length (filter (\<lambda>r. \<not> is_success r) rs)\<rparr>" for rs
    by (simp add: aggregate_and_display_results_def display_loop_cli_spec summary_line_def Let_def)
  have gui: "display_results gs =
    \<lparr>printed = [replicate 60 (CHR ''='') @ [CHR 0x0A], ''DOCKER CONTAINER RESULTS'' @ [CHR 0x0A],
        replicate 60 (CHR ''='') @ [CHR 0x0A, CHR 0x0A]]
       @ concat (map block_gui (zip [1..<1 + length gs] gs))
       @ [replicate 60 (CHR ''='') @ [CHR 0x0A],
          ''SUMMARY: '' @ str_nat (length (filter is_success gs)) @ '' successful, ''
            @ str_nat (length (filter (\<lambda>r. \<not> is_success r) gs)) @ '' failed'' @ [CHR 0x0A],
          replicate 60 (CHR ''='') @ [CHR 0x0A]],
     successful_runs = length (filter is_success gs),
     failed_runs = length (filter (\<lambda>r. \<not> is_success r) gs)\<rparr>" for gs
    by (simp add: display_results_def display_loop_gui_spec summary_line_def Let_def)
  have truth: "is_success (ident, stdout, stderr) = (stdout \<noteq> None \<and> stdout \<noteq> Some [])"
    by (cases stdout) (simp_all add: is_success_def truthy_def)
  have blocks: "block_cli (index, Some [], None)
       = [''Container '' @ str_int index @ '': FAILED'', ''  Error: None'', []]"
    "block_gui (i, command, Some [], None)
       = [''Container '' @ str_nat i @ '' - Command: '' @ command @ [CHR 0x0A],
          ''  Status: FAILED'' @ [CHR 0x0A], ''  Error: None'' @ [CHR 0x0A], [CHR 0x0A]]"
    by (simp_all add: block_cli_def block_gui_def truthy_def fmt_def)
  have noop: "run_docker_container_gui \<lparr>getcwd = Inr ''/srv'', process = Exited 0 ''  '' []\<rparr> ''noop''
       = Inr (''noop'', Some [], None)"
    by (simp add: run_docker_container_gui_def strip_def isspace_def)
  have counted: "failed_runs (display_results [(''noop'', Some [], None)]) = 1"
    "successful_runs (display_results [(''noop'', Some [], None)]) = 0"
    by (simp_all add: gui is_success_def truthy_def)
  have cli_ok: "successful_runs (aggregate_and_display_results rs) = length (filter is_success rs)"
    and cli_failed: "failed_runs (aggregate_and_display_results rs)
                       = length (filter (\<lambda>r. \<not> is_success r) rs)"
    and gui_ok: "successful_runs (display_results gs) = length (filter is_success gs)"
    and gui_failed: "failed_runs (display_results gs) = length (filter (\<lambda>r. \<not> is_success r) gs)"
    by (simp_all add: cli gui)
  have cli_sum: "successful_runs (aggregate_and_display_results rs)
       + failed_runs (aggregate_and_display_results rs) = length rs"
    by (simp only: cli_ok cli_failed filter_partition_length)
  have gui_sum: "successful_runs (display_results gs) + failed_runs (display_results gs) = length gs"
    by (simp only: gui_ok gui_failed filter_partition_length)
  have cli_printed: "printed (aggregate_and_display_results rs) =
       [[CHR 0x0A] @ replicate 50 (CHR ''=''), ''DOCKER CONTAINER RESULTS'',
        replicate 50 (CHR ''='') @ [CHR 0x0A]]
       @ concat (map block_cli rs)
       @ [replicate 50 (CHR ''=''),
          ''SUMMARY: '' @ str_nat (length (filter is_success rs)) @ '' successful, ''
            @ str_nat (length (filter (\<lambda>r. \<not> is_success r) rs)) @ '' failed'',
          replicate 50 (CHR ''='')]"
    by (subst cli) (rule tally.select_convs)
  have gui_printed: "printed (display_results gs) =
       [replicate 60 (CHR ''='') @ [CHR 0x0A], ''DOCKER CONTAINER RESULTS'' @ [CHR 0x0A],
        replicate 60 (CHR ''='') @ [CHR 0x0A, CHR 0x0A]]
       @ concat (map block_gui (zip [1..<1 + length gs] gs))
       @ [replicate 60 (CHR ''='') @ [CHR 0x0A],
          ''SUMMARY: '' @ str_nat (length (filter is_success gs)) @ '' successful, ''
            @ str_nat (length (filter (\<lambda>r. \<not> is_success r) gs)) @ '' failed'' @ [CHR 0x0A],
          replicate 60 (CHR ''='') @ [CHR 0x0A]]"
    by (subst gui) (rule tally.select_convs)
  show ?thesis
    by (intro conjI)
       (rule cli_ok cli_failed cli_sum cli_printed gui_ok gui_failed gui_sum gui_printed
          truth blocks noop counted)+
qed

section \<open>Properties of the Fibonacci functions\<close>

lemma fib_step: "2 \<le> m \<Longrightarrow> fib_number m = fib_number (m - 1) + fib_number (m - 2)"
proof -
  assume "2 \<le> m"
  then obtain k where "m = Suc (Suc k)"
    by (metis One_nat_def Suc_1 Suc_le_D Suc_le_mono)
  then show ?thesis by simp
qed

lemma append_next_fib:
  assumes "2 \<le> m"
  shows "append_next (map fib_number [0..<m]) = Inr (map fib_number [0..<Suc m])"
proof -
  from assms have last: "last (map fib_number [0..<m]) = fib_number (m - 1)"
    by (simp add: last_map last_upt)
  from assms have before: "map fib_number [0..<m] ! (m - 2) = fib_number (m - 2)"
    by simp
  from assms last before show ?thesis
    by (simp add: append_next_def fib_step [of m])
qed

lemma fib_loop_fib:
  "2 \<le> m \<Longrightarrow> fib_loop k (map fib_number [0..<m]) = Inr (map fib_number [0..<m + k])"
proof (induction k arbitrary: m)
  case 0
  then show ?case by simp
next
  case (Suc k)
  from Suc.prems have "fib_loop (Suc k) (map fib_number [0..<m]) = fib_loop k (map fib_number [0..<Suc m])"
    by (simp add: append_next_fib del: upt_Suc map_append)
  also have "\<dots> = Inr (map fib_number [0..<Suc m + k])"
    using Suc.prems by (intro Suc.IH) simp
  finally show ?case by simp
qed

lemma fibonacci_fib: "fibonacci n = Inr (map fib_number [0..<nat n])"
proof -
  consider "n \<le> 0" | "n = 1" | "n = 2" | "3 \<le> n" by linarith
  then show ?thesis
  proof cases
    case 1
    then show ?thesis by (simp add: fibonacci_def)
  next
    case 2
    then show ?thesis by (simp add: fibonacci_def)
  next
    case 3
    have "[0..<2] = [0, Suc 0]" by (simp add: upt_rec)
    with 3 show ?thesis by (simp add: fibonacci_def)
  next
    case 4
    have two: "[0, 1] = map fib_number [0..<2]" by (simp add: upt_rec)
    from 4 have "fibonacci n = fib_loop (nat (n - 2)) (map fib_number [0..<2])"
      by (simp only: fibonacci_def two) simp
    also have "\<dots> = Inr (map fib_number [0..<2 + nat (n - 2)])"
      by (rule fib_loop_fib) simp
    also from 4 have "2 + nat (n - 2) = nat n" by simp
    finally show ?thesis .
  qed
qed

text \<open>
  \<open>fibonacci_recursive(n)\<close> nests \<open>n - 1\<close> calls for \<open>n\<close> of at least 2 and one call
  otherwise. With that much room it returns the Fibonacci number.
\<close>

lemma fibonacci_recursive_fib:
  "1 \<le> n \<Longrightarrow> max 1 (nat n - 1) \<le> room \<Longrightarrow>
   fibonacci_recursive room n = Inr (Some (fib_number (nat n - 1)))"
proof (induction room n rule: fibonacci_recursive.induct)
  case (1 room n)
  from "1.prems" have room: "room \<noteq> 0" by simp
  consider "n = 1" | "n = 2" | "3 \<le> n" using "1.prems" by linarith
  then show ?case
  proof cases
    case 1
    with room show ?thesis by (simp add: fibonacci_recursive.simps)
  next
    case 2
    with room show ?thesis by (simp add: fibonacci_recursive.simps)
  next
    case 3
    with "1.prems" have fits: "max 1 (nat (n - 1) - 1) \<le> room - 1"
      "max 1 (nat (n - 2) - 1) \<le> room - 1"
      by linarith+
    from 3 room fits(1)
    have a: "fibonacci_recursive (room - 1) (n - 1) = Inr (Some (fib_number (nat (n - 1) - 1)))"
      by (intro "1.IH"(1)) simp_all
    from 3 room a fits(2)
    have b: "fibonacci_recursive (room - 1) (n - 2) = Inr (Some (fib_number (nat (n - 2) - 1)))"
      by (intro "1.IH"(2)) simp_all
    from 3 have e1: "nat (n - 1) - 1 = nat n - 2" and e2: "nat (n - 2) - 1 = nat n - 3"
      and big: "2 \<le> nat n - 1" and e3: "nat n - 1 - 1 = nat n - 2" and e4: "nat n - 1 - 2 = nat n - 3"
      by linarith+
    from 3 room
    have "fibonacci_recursive room n
            = py_add (Some (fib_number (nat n - 2))) (Some (fib_number (nat n - 3)))"
      by (subst fibonacci_recursive.simps) (simp only: a b e1 e2, simp)
    also have "\<dots> = Inr (Some (fib_number (nat n - 1)))"
      using fib_step [OF big] by (simp only: py_add_def e3 e4, simp)
    finally show ?thesis .
  qed
qed

text \<open>With less room the innermost call that no longer fits raises, and the error passes
  through every pending addition.\<close>

lemma fibonacci_recursive_raises:
  "1 \<le> n \<Longrightarrow> room < max 1 (nat n - 1) \<Longrightarrow>
   fibonacci_recursive room n = Inl (RecursionError ''maximum recursion depth exceeded'')"
proof (induction room n rule: fibonacci_recursive.induct)
  case (1 room n)
  show ?case
  proof (cases "room = 0")
    case True
    then show ?thesis by (simp add: fibonacci_recursive.simps)
  next
    case False
    with "1.prems" have n: "3 \<le> n" and less: "room - 1 < max 1 (nat (n - 1) - 1)"
      by linarith+
    from False n less
    have "fibonacci_recursive (room - 1) (n - 1)
            = Inl (RecursionError ''maximum recursion depth exceeded'')"
      by (intro "1.IH"(1)) simp_all
    with False n show ?thesis
      by (subst fibonacci_recursive.simps) simp
  qed
qed

text \<open>
  C10, as stated: for every \<open>n\<close> of at least 1, \<open>fibonacci_recursive(n)\<close> equals the last
  element of \<open>fibonacci(n)\<close>. It fails for \<open>n = 1100\<close> at the top level of a script under
  the default recursion limit: \<open>fibonacci(1100)\<close> returns its list, and
  \<open>fibonacci_recursive(1100)\<close> returns nothing, it raises \<open>RecursionError\<close>.
\<close>

theorem C10_counterexample:
  "fibonacci_recursive 999 1100 = Inl (RecursionError ''maximum recursion depth exceeded'')
   \<and> fibonacci 1100 = Inr (map fib_number [0..<1100])"
proof -
  have "fibonacci_recursive 999 1100 = Inl (RecursionError ''maximum recursion depth exceeded'')"
    by (rule fibonacci_recursive_raises) simp_all
  moreover have "fibonacci 1100 = Inr (map fib_number [0..<1100])"
    using fibonacci_fib [of 1100] by simp
  ultimately show ?thesis by simp
qed

text \<open>
  C10, amended: for every \<open>n\<close> of at least 1, \<open>fibonacci(n)\<close> returns a list of \<open>n\<close>
  elements, and \<open>fibonacci_recursive(n)\<close> returns the last element of that list when the
  interpreter admits the \<open>n - 1\<close> nested calls it makes (one call for \<open>n = 1\<close>), and
  raises \<open>RecursionError\<close> when it does not; for every \<open>n\<close> of at most 0, \<open>fibonacci(n)\<close>
  returns the empty list.
\<close>

theorem C10_fibonacci_agree:
  "(1 \<le> n \<longrightarrow>
      (\<exists>fib_sequence. fibonacci n = Inr fib_sequence
         \<and> length fib_sequence = nat n
         \<and> fibonacci_recursive room n =
             (if max 1 (nat n - 1) \<le> room then Inr (Some (last fib_sequence))
              else Inl (RecursionError ''maximum recursion depth exceeded''))))
   \<and> (n \<le> 0 \<longrightarrow> fibonacci n = Inr [])"
proof (intro conjI impI)
  assume n: "1 \<le> n"
  then have last: "last (map fib_number [0..<nat n]) = fib_number (nat n - 1)"
    by (simp add: last_map last_upt)
  have "fibonacci_recursive room n =
          (if max 1 (nat n - 1) \<le> room then Inr (Some (fib_number (nat n - 1)))
           else Inl (RecursionError ''maximum recursion depth exceeded''))"
  proof (cases "max 1 (nat n - 1) \<le> room")
    case True
    with n show ?thesis by (simp only: fibonacci_recursive_fib if_True)
  next
    case False
    then have "room < max 1 (nat n - 1)" by linarith
    with n False show ?thesis by (simp only: fibonacci_recursive_raises if_False)
  qed
  with last show "\<exists>fib_sequence. fibonacci n = Inr fib_sequence
         \<and> length fib_sequence = nat n
         \<and> fibonacci_recursive room n =
             (if max 1 (nat n - 1) \<le> room then Inr (Some (last fib_sequence))
              else Inl (RecursionError ''maximum recursion depth exceeded''))"
    by (simp add: fibonacci_fib)
next
  assume "n \<le> 0"
  then show "fibonacci n = Inr []" by (simp add: fibonacci_def)
qed

text \<open>
  The amended C10 at \<open>n = 7\<close> with room for 999 calls and with room for 5 calls only,
  and at \<open>n = -3\<close>.
\<close>

theorem C10_fibonacci_agree_witness:
  "(1::int) \<le> 7
   \<and> fibonacci 7 = Inr [0, 1, 1, 2, 3, 5, 8]
   \<and> fibonacci_recursive 999 7 = Inr (Some 8)
   \<and> fibonacci_recursive 5 7 = Inl (RecursionError ''maximum recursion depth exceeded'')
   \<and> (-3::int) \<le> 0
   \<and> fibonacci (-3) = Inr []"
proof -
  have seven: "fibonacci 7 = Inr [0, 1, 1, 2, 3, 5, 8]"
    by (simp add: fibonacci_def append_next_def eval_nat_numeral)
  from C10_fibonacci_agree [of 7 999] C10_fibonacci_agree [of 7 5] seven
    C10_fibonacci_agree [of "-3"]
  show ?thesis by simp
qed

end
